theory Spec2Isabelle
  imports Complex_Main "HOL-Library.Word"
begin

section \<open>The 2D image viewer of \<^verbatim>\<open>pcl/visualization/image_viewer.h\<close>\<close>

text \<open>
  The header declares the class \<^verbatim>\<open>pcl::visualization::ImageViewer\<close>. Its inline
  member functions (\<^verbatim>\<open>wasStopped\<close>, \<^verbatim>\<open>resetStoppedFlag\<close>, the cookie overloads of
  \<^verbatim>\<open>registerKeyboardCallback\<close> and \<^verbatim>\<open>registerMouseCallback\<close>, and the two
  \<^verbatim>\<open>Execute\<close> callbacks) are embedded from their bodies; the default arguments of the
  drawing operations are embedded from their declarations. The bodies of the other members
  live in a translation unit that is not part of the sources.

  Conventions. A \<^verbatim>\<open>vtkSmartPointer\<close> or a raw pointer is an \<open>option\<close>: \<open>None\<close> is
  the null pointer, and dereferencing it is the failure \<open>NullDereference\<close>. A
  \<^verbatim>\<open>double\<close> that the modelled code only stores, passes on or compares is a \<open>real\<close>;
  no arithmetic is done on it here. \<^verbatim>\<open>unsigned long\<close> event ids and \<^verbatim>\<open>unsigned\<close>
  coordinates are \<open>nat\<close>, \<^verbatim>\<open>int\<close> is \<open>int\<close>: the modelled code only compares them
  or passes them on. An \<^verbatim>\<open>unsigned char\<close> is an \<open>8 word\<close>. A data member
  \<^verbatim>\<open>name_\<close> is the field \<open>name\<close>: an identifier cannot end in an underscore here.
\<close>

subsection \<open>Toolkit objects\<close>

text \<open>
  \<^verbatim>\<open>vtkRenderWindowInteractor\<close> belongs to the toolkit. All that the header does with it is
  call \<^verbatim>\<open>TerminateApp\<close>, which ends the interactor's event loop: the model keeps one flag,
  whether the loop is still running.
\<close>

record vtkRenderWindowInteractor =
  loop_running :: bool

definition TerminateApp :: "vtkRenderWindowInteractor \<Rightarrow> vtkRenderWindowInteractor" where
  "TerminateApp i = i\<lparr>loop_running := False\<rparr>"

text \<open>
  \<^verbatim>\<open>vtkImageViewer\<close>, the widget behind \<^verbatim>\<open>image_viewer_\<close>: the header sets its window
  name, position and size.
\<close>

record vtkImageViewer =
  window_name :: string
  position :: "int \<times> int"
  size_xy :: "int \<times> int"

text \<open>\<^verbatim>\<open>vtkImageCanvasSource2D\<close>, the drawable surface of a layer, with its extent.\<close>

record vtkImageCanvasSource2D =
  extent_width :: int
  extent_height :: int

subsection \<open>The viewer's data\<close>

text \<open>\<^verbatim>\<open>struct Layer\<close>; its constructor value-initialises every member.\<close>

record Layer =
  canvas :: "vtkImageCanvasSource2D option"
  layer_name :: string
  opacity :: real

definition Layer_ctor :: Layer where
  "Layer_ctor = \<lparr>canvas = None, layer_name = [], opacity = 0\<rparr>"

text \<open>\<^verbatim>\<open>typedef std::vector<Layer> LayerMap\<close>\<close>

type_synonym LayerMap = "Layer list"

text \<open>
  The data members of \<^verbatim>\<open>ImageViewer\<close> that the embedded code reads or writes. The two
  signals are left to the registration functions below, which take the function that
  connects a slot as an argument; the image buffer, the blender, the timer id and the two
  \<^verbatim>\<open>vtkCallbackCommand\<close>s are used only by code outside the header.
\<close>

record ImageViewer =
  interactor :: "vtkRenderWindowInteractor option"
  image_viewer :: "vtkImageViewer option"
  stopped :: bool
  layer_map :: LayerMap
  layers_to_remove :: "int list"

datatype failure = NullDereference

subsection \<open>\<^verbatim>\<open>wasStopped\<close> and \<^verbatim>\<open>resetStoppedFlag\<close>\<close>

text \<open>\<^verbatim>\<open>bool wasStopped () const { if (image_viewer_) return (stopped_); else return (true); }\<close>\<close>

definition wasStopped :: "ImageViewer \<Rightarrow> bool" where
  "wasStopped this = (if image_viewer this \<noteq> None then stopped this else True)"

text \<open>\<^verbatim>\<open>void resetStoppedFlag () { if (image_viewer_) stopped_ = false; }\<close>\<close>

definition resetStoppedFlag :: "ImageViewer \<Rightarrow> ImageViewer" where
  "resetStoppedFlag this = (if image_viewer this \<noteq> None then this\<lparr>stopped := False\<rparr> else this)"

subsection \<open>The two \<^verbatim>\<open>vtkCommand\<close> callbacks\<close>

text \<open>
  Both callbacks hold a raw pointer \<^verbatim>\<open>window\<close> to the viewer, null after construction.
  \<open>Execute\<close> takes the pointee (\<open>None\<close> when \<^verbatim>\<open>window\<close> is null) and returns it as the
  call leaves it. The event ids \<^verbatim>\<open>vtkCommand::TimerEvent\<close> and \<^verbatim>\<open>vtkCommand::ExitEvent\<close>
  are constants of the toolkit and are arguments of the model. \<^verbatim>\<open>call_data\<close> points to
  the \<^verbatim>\<open>int\<close> that \<open>Execute\<close> reads through it.
\<close>

record ExitMainLoopTimerCallback =
  right_timer_id :: int

definition ExitMainLoopTimerCallback_ctor :: ExitMainLoopTimerCallback where
  "ExitMainLoopTimerCallback_ctor = \<lparr>right_timer_id = 0\<rparr>"

definition interactor_TerminateApp :: "ImageViewer option \<Rightarrow> failure + ImageViewer option" where
  \<comment> \<open>\<^verbatim>\<open>window->interactor_->TerminateApp ();\<close>\<close>
  "interactor_TerminateApp window =
     (case window of
        None \<Rightarrow> Inl NullDereference
      | Some w \<Rightarrow>
          (case interactor w of
             None \<Rightarrow> Inl NullDereference
           | Some i \<Rightarrow> Inr (Some (w\<lparr>interactor := Some (TerminateApp i)\<rparr>))))"

definition ExitMainLoopTimerCallback_Execute ::
  "nat \<Rightarrow> ExitMainLoopTimerCallback \<Rightarrow> nat \<Rightarrow> int option \<Rightarrow> ImageViewer option
     \<Rightarrow> failure + ImageViewer option" where
  "ExitMainLoopTimerCallback_Execute TimerEvent this event_id call_data window =
     (if event_id \<noteq> TimerEvent then Inr window
      else
        (case call_data of
           None \<Rightarrow> Inl NullDereference
         | Some timer_id \<Rightarrow>
             if timer_id \<noteq> right_timer_id this then Inr window
             else interactor_TerminateApp window))"

definition ExitCallback_Execute ::
  "nat \<Rightarrow> nat \<Rightarrow> ImageViewer option \<Rightarrow> failure + ImageViewer option" where
  "ExitCallback_Execute ExitEvent event_id window =
     (if event_id \<noteq> ExitEvent then Inr window
      else
        (case window of
           None \<Rightarrow> Inl NullDereference
         | Some w \<Rightarrow> interactor_TerminateApp (Some (w\<lparr>stopped := True\<rparr>))))"

subsection \<open>Registering callbacks with a cookie\<close>

text \<open>
  A \<^verbatim>\<open>void*\<close> cookie is an address, \<^verbatim>\<open>NULL\<close> the address 0. A handler returns
  \<^verbatim>\<open>void\<close>: what it does is its effect on the world \<open>'w\<close> around the viewer, so a
  \<^verbatim>\<open>void (*) (const Event&, void*)\<close> is an \<open>'e \<Rightarrow> nat \<Rightarrow> 'w \<Rightarrow> 'w\<close> and a
  \<^verbatim>\<open>boost::function<void (const Event&)>\<close> an \<open>'e \<Rightarrow> 'w \<Rightarrow> 'w\<close>. The event classes
  are declared in other headers and stay type variables.
\<close>

definition NULL :: nat where
  "NULL = 0"

text \<open>\<^verbatim>\<open>boost::bind (callback, _1, cookie)\<close>, with \<open>a1\<close> for the placeholder \<^verbatim>\<open>_1\<close>.\<close>

definition boost_bind :: "('e \<Rightarrow> nat \<Rightarrow> 'r) \<Rightarrow> nat \<Rightarrow> 'e \<Rightarrow> 'r" where
  "boost_bind callback cookie = (\<lambda>a1. callback a1 cookie)"

text \<open>
  \<^verbatim>\<open>registerKeyboardCallback (void (*callback) (const KeyboardEvent&, void*), void* cookie = NULL)\<close>
  and its twin for mouse events. Each only calls the overload that takes a
  \<^verbatim>\<open>boost::function\<close>, which the header declares and does not define: that overload is the
  first argument, a function from the slot and the viewer to the connection and the viewer.
  The cookie is \<open>None\<close> when the caller leaves it out.
\<close>

definition registerKeyboardCallback ::
  "(('ke \<Rightarrow> 'w \<Rightarrow> 'w) \<Rightarrow> 's \<Rightarrow> 'c \<times> 's) \<Rightarrow> ('ke \<Rightarrow> nat \<Rightarrow> 'w \<Rightarrow> 'w) \<Rightarrow> nat option
     \<Rightarrow> 's \<Rightarrow> 'c \<times> 's" where
  "registerKeyboardCallback registerKeyboardCallback_function callback cookie =
     registerKeyboardCallback_function
       (boost_bind callback (case cookie of None \<Rightarrow> NULL | Some c \<Rightarrow> c))"

definition registerMouseCallback ::
  "(('me \<Rightarrow> 'w \<Rightarrow> 'w) \<Rightarrow> 's \<Rightarrow> 'c \<times> 's) \<Rightarrow> ('me \<Rightarrow> nat \<Rightarrow> 'w \<Rightarrow> 'w) \<Rightarrow> nat option
     \<Rightarrow> 's \<Rightarrow> 'c \<times> 's" where
  "registerMouseCallback registerMouseCallback_function callback cookie =
     registerMouseCallback_function
       (boost_bind callback (case cookie of None \<Rightarrow> NULL | Some c \<Rightarrow> c))"

text \<open>
  A signal as the list of its slots, oldest first, to run the registration functions on:
  connecting appends the slot and returns its place as the connection, publishing an event
  calls every slot on it in turn, each on the world the one before left.
\<close>

definition signal_connect :: "('e \<Rightarrow> 'w \<Rightarrow> 'w) \<Rightarrow> ('e \<Rightarrow> 'w \<Rightarrow> 'w) list
    \<Rightarrow> nat \<times> ('e \<Rightarrow> 'w \<Rightarrow> 'w) list" where
  "signal_connect slot signal = (length signal, signal @ [slot])"

fun signal_publish :: "('e \<Rightarrow> 'w \<Rightarrow> 'w) list \<Rightarrow> 'e \<Rightarrow> 'w \<Rightarrow> 'w" where
  "signal_publish [] e w = w"
| "signal_publish (slot # slots) e w = signal_publish slots e (slot e w)"

subsection \<open>Default arguments of the drawing operations\<close>

text \<open>\<^verbatim>\<open>typedef Eigen::Array<unsigned char, 3, 1> Vector3ub\<close> and the three colours.\<close>

type_synonym Vector3ub = "8 word \<times> 8 word \<times> 8 word"



definition blue_color :: Vector3ub where
  "blue_color = (0, 0, 255)"










definition or_default :: "'a \<Rightarrow> 'a option \<Rightarrow> 'a" where
  "or_default d given = (case given of None \<Rightarrow> d | Some x \<Rightarrow> x)"

subsection \<open>The layer registry\<close>

text \<open>
  \<^verbatim>\<open>struct LayerComparator\<close>, the predicate of the registry's linear scan:
  \<^verbatim>\<open>return (layer.layer_name == str_);\<close>
\<close>

definition LayerComparator :: "string \<Rightarrow> Layer \<Rightarrow> bool" where
  "LayerComparator str layer = (layer_name layer = str)"

text \<open>
  \<^verbatim>\<open>std::find_if\<close> over a vector, the iterator as its distance from \<^verbatim>\<open>begin ()\<close>: the
  place of the first element that satisfies the predicate, the length (\<^verbatim>\<open>end ()\<close>) when
  there is none.
\<close>

fun find_if :: "('a \<Rightarrow> bool) \<Rightarrow> 'a list \<Rightarrow> nat" where
  "find_if pred [] = 0"
| "find_if pred (x # xs) = (if pred x then 0 else Suc (find_if pred xs))"

text \<open>\<^verbatim>\<open>std::vector::erase\<close> of the element at a valid place.\<close>

definition erase :: "nat \<Rightarrow> 'a list \<Rightarrow> 'a list" where
  "erase i xs = take i xs @ drop (Suc i) xs"

text \<open>
  Modelled from the spec: the body of the public \<^verbatim>\<open>addLayer\<close>, which the header declares
  (with the default opacity 0.5) and does not define. The spec: ``\<^verbatim>\<open>addLayer(name, width,
  height, opacity)\<close> creates a new compositing surface if absent (idempotent no-op/failure
  if name exists)'', ``lookup by name (linear scan)'', the registry ``an ordered collection'',
  and ``opacity values round-trip''. The scan is \<^verbatim>\<open>find_if\<close> with the header's
  \<^verbatim>\<open>LayerComparator\<close>; the new layer goes to the back of the vector.
\<close>

definition addLayer :: "string \<Rightarrow> int \<Rightarrow> int \<Rightarrow> real option \<Rightarrow> ImageViewer \<Rightarrow> bool \<times> ImageViewer" where
  "addLayer layer_id width height opacity' this =
     (if find_if (LayerComparator layer_id) (layer_map this) \<noteq> length (layer_map this)
      then (False, this)
      else (True, this\<lparr>layer_map := layer_map this @
              [\<lparr>canvas = Some \<lparr>extent_width = width, extent_height = height\<rparr>,
                layer_name = layer_id,
                opacity = or_default 0.5 opacity'\<rparr>]\<rparr>))"

text \<open>
  Modelled from the spec: the body of \<^verbatim>\<open>removeLayer\<close>, declared and not defined in the
  header. The spec: ``\<^verbatim>\<open>removeLayer(name)\<close> removes it by name, marking it for exclusion
  from the next composite pass''. The layer found by the scan is erased from the registry
  and its place is noted in \<^verbatim>\<open>layers_to_remove_\<close>; a name that is not there changes
  nothing.
\<close>

definition removeLayer :: "string \<Rightarrow> ImageViewer \<Rightarrow> ImageViewer" where
  "removeLayer layer_id this =
     (let am_it = find_if (LayerComparator layer_id) (layer_map this) in
      if am_it = length (layer_map this) then this
      else this\<lparr>layers_to_remove := layers_to_remove this @ [int am_it],
                layer_map := erase am_it (layer_map this)\<rparr>)"

text \<open>
  Modelled from the spec: the composite pass is not in the header. The spec: the registry is
  ``an ordered collection of named overlay canvases, each with an opacity value, composited
  onto the base image via an image-blend stage''. The pass takes the layers in the order of
  \<^verbatim>\<open>layer_map_\<close>; \<open>composite_order\<close> lists their names in that order.
\<close>

definition composite_order :: "ImageViewer \<Rightarrow> string list" where
  "composite_order this = map layer_name (layer_map this)"

text \<open>
  The states of the registry. The spec gives the lifecycle of a layer as ``created by
  \<^verbatim>\<open>addLayer\<close>, destroyed by \<^verbatim>\<open>removeLayer\<close>'': a reachable registry is what a sequence
  of calls of the two leaves.
\<close>

datatype call = Call_addLayer string int int "real option" | Call_removeLayer string

fun run_call :: "call \<Rightarrow> ImageViewer \<Rightarrow> ImageViewer" where
  "run_call (Call_addLayer layer_id width height opacity') this =
     snd (addLayer layer_id width height opacity' this)"
| "run_call (Call_removeLayer layer_id) this = removeLayer layer_id this"

fun run_calls :: "call list \<Rightarrow> ImageViewer \<Rightarrow> ImageViewer" where
  "run_calls [] this = this"
| "run_calls (c # cs) this = run_calls cs (run_call c this)"

text \<open>
  The insertion a present layer comes from, read off the calls alone: \<open>insertion_time name
  cs k cur\<close> follows one name through the calls \<open>cs\<close>, which are numbered from \<open>k\<close>. \<open>cur\<close>
  is the number of the call that inserted the layer of that name, \<open>None\<close> while there is no
  such layer: an \<^verbatim>\<open>addLayer\<close> of the name inserts when there is none, a
  \<^verbatim>\<open>removeLayer\<close> of the name ends it.
\<close>

fun insertion_time :: "string \<Rightarrow> call list \<Rightarrow> nat \<Rightarrow> nat option \<Rightarrow> nat option" where
  "insertion_time name [] k cur = cur"
| "insertion_time name (Call_addLayer layer_id width height opacity' # cs) k cur =
     insertion_time name cs (Suc k) (if layer_id = name \<and> cur = None then Some k else cur)"
| "insertion_time name (Call_removeLayer layer_id # cs) k cur =
     insertion_time name cs (Suc k) (if layer_id = name then None else cur)"

definition inserted_before :: "call list \<Rightarrow> string \<Rightarrow> string \<Rightarrow> bool" where
  "inserted_before cs a b =
     (case (insertion_time a cs 0 None, insertion_time b cs 0 None) of
        (Some i, Some j) \<Rightarrow> i < j
      | _ \<Rightarrow> False)"

subsection \<open>Drawing into a layer\<close>










text \<open>
  The invariant behind the order of the registry: \<open>T\<close> gives each name the number of the
  call that inserted its layer, \<open>k\<close> is the number of the next call. The names are distinct,
  they are the names that have an insertion, they stand in the order of their insertions,
  and every insertion is a call already made.
\<close>

definition registry_inv :: "string list \<Rightarrow> (string \<Rightarrow> nat option) \<Rightarrow> nat \<Rightarrow> bool" where
  "registry_inv names T k =
     (distinct names \<and> set names = {n. T n \<noteq> None}
      \<and> sorted_wrt (\<lambda>a b. \<exists>i j. T a = Some i \<and> T b = Some j \<and> i < j) names
      \<and> (\<forall>n i. T n = Some i \<longrightarrow> i < k))"

section \<open>Properties\<close>

subsection \<open>The stopped flag and the two callbacks\<close>

text \<open>
  Claim C9. \<^verbatim>\<open>wasStopped\<close> returns true whenever the \<^verbatim>\<open>image_viewer_\<close> handle is null,
  whatever the stopped flag holds; only when the handle is non-null does it return the
  stopped flag. \<^verbatim>\<open>resetStoppedFlag\<close> has the same guard: it clears the flag of a viewer
  with a widget and does nothing to one without, which \<^verbatim>\<open>wasStopped\<close> goes on reporting
  as stopped.
\<close>

theorem wasStopped_null_handle:
  "(image_viewer v = None \<longrightarrow> wasStopped v \<and> wasStopped (v\<lparr>stopped := b\<rparr>))
   \<and> (image_viewer v \<noteq> None \<longrightarrow> wasStopped v = stopped v)
   \<and> (image_viewer v = None \<longrightarrow> resetStoppedFlag v = v \<and> wasStopped (resetStoppedFlag v))
   \<and> (image_viewer v \<noteq> None \<longrightarrow> \<not> wasStopped (resetStoppedFlag v))"
  by (simp add: wasStopped_def resetStoppedFlag_def)

theorem wasStopped_null_handle_witness:
  "wasStopped \<lparr>interactor = None, image_viewer = None, stopped = False,
      layer_map = [], layers_to_remove = []\<rparr>
   \<and> wasStopped \<lparr>interactor = None,
        image_viewer = Some \<lparr>window_name = ''w'', position = (0, 0), size_xy = (1, 1)\<rparr>,
        stopped = True, layer_map = [], layers_to_remove = []\<rparr>
   \<and> \<not> wasStopped \<lparr>interactor = None,
        image_viewer = Some \<lparr>window_name = ''w'', position = (0, 0), size_xy = (1, 1)\<rparr>,
        stopped = False, layer_map = [], layers_to_remove = []\<rparr>"
  using
    wasStopped_null_handle [of "\<lparr>interactor = None, image_viewer = None, stopped = False,
      layer_map = [], layers_to_remove = []\<rparr>" False]
    wasStopped_null_handle [of "\<lparr>interactor = None,
      image_viewer = Some \<lparr>window_name = ''w'', position = (0, 0), size_xy = (1, 1)\<rparr>,
      stopped = True, layer_map = [], layers_to_remove = []\<rparr>" False]
    wasStopped_null_handle [of "\<lparr>interactor = None,
      image_viewer = Some \<lparr>window_name = ''w'', position = (0, 0), size_xy = (1, 1)\<rparr>,
      stopped = False, layer_map = [], layers_to_remove = []\<rparr>" False]
  by simp

text \<open>
  Claim C5. The window-close signal, \<^verbatim>\<open>vtkCommand::ExitEvent\<close> delivered to
  \<^verbatim>\<open>ExitCallback::Execute\<close>, sets the stopped flag of the viewer behind \<^verbatim>\<open>window\<close>
  and ends the interactor's loop, so that \<^verbatim>\<open>wasStopped\<close> then returns true; nothing
  else of the viewer changes. For every other event id \<open>Execute\<close> returns with the viewer
  as it was (also when \<^verbatim>\<open>window\<close> is null).
\<close>

theorem ExitCallback_Execute_stops_viewer:
  "(interactor v = Some i \<longrightarrow>
      ExitCallback_Execute ExitEvent ExitEvent (Some v)
        = Inr (Some (v\<lparr>stopped := True, interactor := Some (TerminateApp i)\<rparr>))
      \<and> stopped (v\<lparr>stopped := True, interactor := Some (TerminateApp i)\<rparr>)
      \<and> \<not> loop_running (TerminateApp i)
      \<and> wasStopped (v\<lparr>stopped := True, interactor := Some (TerminateApp i)\<rparr>))
   \<and> (event_id \<noteq> ExitEvent \<longrightarrow> ExitCallback_Execute ExitEvent event_id window = Inr window)"
  by (simp add: ExitCallback_Execute_def interactor_TerminateApp_def TerminateApp_def
      wasStopped_def)

theorem ExitCallback_Execute_stops_viewer_witness:
  "ExitCallback_Execute 3 3
      (Some \<lparr>interactor = Some \<lparr>loop_running = True\<rparr>, image_viewer = Some \<lparr>window_name = ''w'', position = (0, 0), size_xy = (1, 1)\<rparr>, stopped = False,
         layer_map = [], layers_to_remove = []\<rparr>)
     = Inr (Some \<lparr>interactor = Some \<lparr>loop_running = False\<rparr>, image_viewer = Some \<lparr>window_name = ''w'', position = (0, 0), size_xy = (1, 1)\<rparr>,
         stopped = True, layer_map = [], layers_to_remove = []\<rparr>)
   \<and> wasStopped \<lparr>interactor = Some \<lparr>loop_running = False\<rparr>, image_viewer = Some \<lparr>window_name = ''w'', position = (0, 0), size_xy = (1, 1)\<rparr>,
         stopped = True, layer_map = [], layers_to_remove = []\<rparr>
   \<and> ExitCallback_Execute 3 5
      (Some \<lparr>interactor = Some \<lparr>loop_running = True\<rparr>, image_viewer = Some \<lparr>window_name = ''w'', position = (0, 0), size_xy = (1, 1)\<rparr>, stopped = False,
         layer_map = [], layers_to_remove = []\<rparr>)
     = Inr (Some \<lparr>interactor = Some \<lparr>loop_running = True\<rparr>, image_viewer = Some \<lparr>window_name = ''w'', position = (0, 0), size_xy = (1, 1)\<rparr>,
         stopped = False, layer_map = [], layers_to_remove = []\<rparr>)"
  using ExitCallback_Execute_stops_viewer
    [of "\<lparr>interactor = Some \<lparr>loop_running = True\<rparr>, image_viewer = Some \<lparr>window_name = ''w'', position = (0, 0), size_xy = (1, 1)\<rparr>, stopped = False,
           layer_map = [], layers_to_remove = []\<rparr>"
        "\<lparr>loop_running = True\<rparr>" 3 5
        "Some \<lparr>interactor = Some \<lparr>loop_running = True\<rparr>, image_viewer = Some \<lparr>window_name = ''w'', position = (0, 0), size_xy = (1, 1)\<rparr>,
           stopped = False, layer_map = [], layers_to_remove = []\<rparr>"]
  by (simp add: TerminateApp_def)

text \<open>
  Claim C10. \<^verbatim>\<open>ExitMainLoopTimerCallback::Execute\<close> ends the interactor's event loop only
  for a \<^verbatim>\<open>vtkCommand::TimerEvent\<close> whose timer id, read through \<^verbatim>\<open>call_data\<close>, equals
  the stored \<^verbatim>\<open>right_timer_id\<close>: it does so then (leaving the stopped flag and the rest of
  the viewer alone), it returns with the viewer untouched for every other event id and for
  every other timer id, and whenever it returns a changed viewer the event was such a timer
  event.
\<close>

theorem ExitMainLoopTimerCallback_Execute_matching_timer_only:
  "(event_id \<noteq> TimerEvent \<longrightarrow>
      ExitMainLoopTimerCallback_Execute TimerEvent cb event_id call_data window = Inr window)
   \<and> (t \<noteq> right_timer_id cb \<longrightarrow>
      ExitMainLoopTimerCallback_Execute TimerEvent cb event_id (Some t) window = Inr window)
   \<and> (interactor v = Some i \<longrightarrow>
      ExitMainLoopTimerCallback_Execute TimerEvent cb TimerEvent (Some (right_timer_id cb)) (Some v)
        = Inr (Some (v\<lparr>interactor := Some (TerminateApp i)\<rparr>))
      \<and> \<not> loop_running (TerminateApp i))
   \<and> (ExitMainLoopTimerCallback_Execute TimerEvent cb event_id call_data (Some v) = Inr (Some v')
        \<and> v' \<noteq> v \<longrightarrow>
      event_id = TimerEvent \<and> call_data = Some (right_timer_id cb))"
  by (auto simp add: ExitMainLoopTimerCallback_Execute_def interactor_TerminateApp_def
      TerminateApp_def split: option.splits if_splits)

theorem ExitMainLoopTimerCallback_Execute_matching_timer_only_witness:
  "ExitMainLoopTimerCallback_Execute 1 \<lparr>right_timer_id = 7\<rparr> 2 (Some 7)
      (Some \<lparr>interactor = Some \<lparr>loop_running = True\<rparr>, image_viewer = None, stopped = False,
         layer_map = [], layers_to_remove = []\<rparr>)
     = Inr (Some \<lparr>interactor = Some \<lparr>loop_running = True\<rparr>, image_viewer = None,
         stopped = False, layer_map = [], layers_to_remove = []\<rparr>)
   \<and> ExitMainLoopTimerCallback_Execute 1 \<lparr>right_timer_id = 7\<rparr> 1 (Some 8)
      (Some \<lparr>interactor = Some \<lparr>loop_running = True\<rparr>, image_viewer = None, stopped = False,
         layer_map = [], layers_to_remove = []\<rparr>)
     = Inr (Some \<lparr>interactor = Some \<lparr>loop_running = True\<rparr>, image_viewer = None,
         stopped = False, layer_map = [], layers_to_remove = []\<rparr>)
   \<and> ExitMainLoopTimerCallback_Execute 1 \<lparr>right_timer_id = 7\<rparr> 1 (Some 7)
      (Some \<lparr>interactor = Some \<lparr>loop_running = True\<rparr>, image_viewer = None, stopped = False,
         layer_map = [], layers_to_remove = []\<rparr>)
     = Inr (Some \<lparr>interactor = Some \<lparr>loop_running = False\<rparr>, image_viewer = None,
         stopped = False, layer_map = [], layers_to_remove = []\<rparr>)"
  using
    ExitMainLoopTimerCallback_Execute_matching_timer_only
      [of 2 1 "\<lparr>right_timer_id = 7\<rparr>" "Some 7"
          "Some \<lparr>interactor = Some \<lparr>loop_running = True\<rparr>, image_viewer = None,
             stopped = False, layer_map = [], layers_to_remove = []\<rparr>"
          8
          "\<lparr>interactor = Some \<lparr>loop_running = True\<rparr>, image_viewer = None,
             stopped = False, layer_map = [], layers_to_remove = []\<rparr>"
          "\<lparr>loop_running = True\<rparr>"
          "\<lparr>interactor = Some \<lparr>loop_running = True\<rparr>, image_viewer = None,
             stopped = False, layer_map = [], layers_to_remove = []\<rparr>"]
    ExitMainLoopTimerCallback_Execute_matching_timer_only
      [of 1 1 "\<lparr>right_timer_id = 7\<rparr>" "Some 8"
          "Some \<lparr>interactor = Some \<lparr>loop_running = True\<rparr>, image_viewer = None,
             stopped = False, layer_map = [], layers_to_remove = []\<rparr>"
          8
          "\<lparr>interactor = Some \<lparr>loop_running = True\<rparr>, image_viewer = None,
             stopped = False, layer_map = [], layers_to_remove = []\<rparr>"
          "\<lparr>loop_running = True\<rparr>"
          "\<lparr>interactor = Some \<lparr>loop_running = True\<rparr>, image_viewer = None,
             stopped = False, layer_map = [], layers_to_remove = []\<rparr>"]
  by (simp add: TerminateApp_def)

subsection \<open>Callbacks registered with a cookie\<close>

text \<open>The slot connected last is called last, on the world the older slots left.\<close>

lemma signal_publish_append:
  "signal_publish (slots @ [slot]) e w = slot e (signal_publish slots e w)"
  by (induction slots arbitrary: w) simp_all

lemma signal_connect_delivers:
  "signal_publish (snd (signal_connect slot signal)) e w = slot e (signal_publish signal e w)"
  by (simp add: signal_connect_def signal_publish_append)

text \<open>
  Claim C7. Registering a plain function pointer with a cookie, through
  \<^verbatim>\<open>registerKeyboardCallback (callback, cookie)\<close> or \<^verbatim>\<open>registerMouseCallback (callback, cookie)\<close>,
  is registering the \<^verbatim>\<open>boost::function\<close> that binds the cookie as the handler's second
  argument (\<^verbatim>\<open>NULL\<close> when the cookie is left out): the viewer and the connection returned
  are the same, and calling the registered slot on an event calls the handler with that
  event and that cookie. Hence, for any overload taking a \<^verbatim>\<open>boost::function\<close> and any
  way of publishing an event that calls a newly connected slot on the published event after
  the slots connected before it, publishing an event after the registration calls the
  handler with the event and the cookie, on the world the earlier slots left, before the
  publication returns.
\<close>

theorem registerCallback_cookie_binds:
  assumes keyboard_signal:
    "\<And>cb s e w. emitKeyboardEvent (snd (registerKeyboardCallback_function cb s)) e w
        = cb e (emitKeyboardEvent s e w)"
  and mouse_signal:
    "\<And>cb s e w. emitMouseEvent (snd (registerMouseCallback_function cb s)) e w
        = cb e (emitMouseEvent s e w)"
  shows
  "registerKeyboardCallback registerKeyboardCallback_function kcallback (Some cookie) s
     = registerKeyboardCallback_function (boost_bind kcallback cookie) s
   \<and> registerKeyboardCallback registerKeyboardCallback_function kcallback None s
     = registerKeyboardCallback_function (boost_bind kcallback NULL) s
   \<and> boost_bind kcallback cookie ke = kcallback ke cookie
   \<and> emitKeyboardEvent
        (snd (registerKeyboardCallback registerKeyboardCallback_function kcallback (Some cookie) s))
        ke w
     = kcallback ke cookie (emitKeyboardEvent s ke w)
   \<and> registerMouseCallback registerMouseCallback_function mcallback (Some cookie) s
     = registerMouseCallback_function (boost_bind mcallback cookie) s
   \<and> registerMouseCallback registerMouseCallback_function mcallback None s
     = registerMouseCallback_function (boost_bind mcallback NULL) s
   \<and> boost_bind mcallback cookie me = mcallback me cookie
   \<and> emitMouseEvent
        (snd (registerMouseCallback registerMouseCallback_function mcallback (Some cookie) s))
        me w
     = mcallback me cookie (emitMouseEvent s me w)"
  by (simp add: registerKeyboardCallback_def registerMouseCallback_def boost_bind_def
      keyboard_signal mouse_signal)

theorem registerCallback_cookie_binds_witness:
  "signal_publish
      (snd (registerKeyboardCallback signal_connect (\<lambda>e c w. w @ [(e, c)]) (Some 7)
         [\<lambda>e w. w @ [(e, 0)]]))
      (5::nat) []
     = [(5, 0), (5, 7::nat)]
   \<and> signal_publish
      (snd (registerMouseCallback signal_connect (\<lambda>e c w. w @ [(e, c)]) (Some 7)
         [\<lambda>e w. w @ [(e, 0)]]))
      (6::nat) []
     = [(6, 0), (6, 7::nat)]"
  using registerCallback_cookie_binds
    [of signal_publish signal_connect signal_publish signal_connect
        "\<lambda>e c w. w @ [(e, c)]" 7 "[\<lambda>e w. w @ [(e, 0)]]" "5::nat" "[]"
        "\<lambda>e c w. w @ [(e, c)]" "6::nat", OF signal_connect_delivers signal_connect_delivers]
  by (simp add: registerKeyboardCallback_def registerMouseCallback_def signal_connect_def
      boost_bind_def)

subsection \<open>The arguments a drawing operation hands on\<close>






subsection \<open>The registry\<close>

text \<open>The scan reaches the end exactly when no layer has the name.\<close>

lemma find_if_LayerComparator_end:
  "(find_if (LayerComparator name) ls = length ls) = (name \<notin> set (map layer_name ls))"
  by (induction ls) (auto simp add: LayerComparator_def)

text \<open>Erasing the layer the scan found takes its name out of the list of names.\<close>

lemma names_erase_find_if:
  "map layer_name (erase (find_if (LayerComparator name) ls) ls) = remove1 name (map layer_name ls)"
  by (induction ls) (auto simp add: LayerComparator_def erase_def)

text \<open>What the two operations do to the names of the registry, in order.\<close>

lemma composite_order_addLayer:
  "composite_order (snd (addLayer name w h a v)) =
     (if name \<in> set (composite_order v) then composite_order v else composite_order v @ [name])"
  by (simp add: addLayer_def composite_order_def find_if_LayerComparator_end)

lemma composite_order_removeLayer:
  "composite_order (removeLayer name v) = remove1 name (composite_order v)"
  by (simp add: removeLayer_def composite_order_def Let_def names_erase_find_if
      find_if_LayerComparator_end remove1_idem)

text \<open>Each call keeps the invariant, with the insertion times moved on by the call.\<close>

lemma registry_inv_add:
  assumes "registry_inv names T k"
  shows "registry_inv (if m \<in> set names then names else names @ [m])
           (\<lambda>n. if m = n \<and> T n = None then Some k else T n) (Suc k)"
proof (cases "m \<in> set names")
  case True
  with assms have "T m \<noteq> None" by (auto simp add: registry_inv_def)
  then have "(\<lambda>n. if m = n \<and> T n = None then Some k else T n) = T"
    by (auto simp add: fun_eq_iff)
  with assms True show ?thesis by (auto simp add: registry_inv_def less_Suc_eq)
next
  case False
  define T' where "T' = (\<lambda>n. if m = n \<and> T n = None then Some k else T n)"
  from assms have d: "distinct names" and s: "set names = {n. T n \<noteq> None}"
    and o: "sorted_wrt (\<lambda>a b. \<exists>i j. T a = Some i \<and> T b = Some j \<and> i < j) names"
    and b: "\<forall>n i. T n = Some i \<longrightarrow> i < k"
    by (simp_all add: registry_inv_def)
  from False s have Tm: "T m = None" by auto
  then have T'm: "T' m = Some k" by (simp add: T'_def)
  have T'n: "T' n = T n" if "n \<noteq> m" for n using that by (auto simp add: T'_def)
  have old: "x \<noteq> m" if "x \<in> set names" for x using that False by auto
  have o': "sorted_wrt (\<lambda>a b. \<exists>i j. T' a = Some i \<and> T' b = Some j \<and> i < j) names"
    using o by (rule sorted_wrt_mono_rel[rotated]) (simp add: T'n old)
  have last: "\<exists>i j. T' x = Some i \<and> T' m = Some j \<and> i < j" if "x \<in> set names" for x
  proof -
    from that s obtain i where "T x = Some i" by auto
    with b have "i < k" by simp
    with \<open>T x = Some i\<close> T'm T'n[OF old[OF that]] show ?thesis by simp
  qed
  have "distinct (names @ [m])" using d False by simp
  moreover have "set (names @ [m]) = {n. T' n \<noteq> None}"
  proof (rule set_eqI)
    fix n show "(n \<in> set (names @ [m])) = (n \<in> {n. T' n \<noteq> None})"
      using s T'm T'n[of n] by (cases "n = m") auto
  qed
  moreover have "sorted_wrt (\<lambda>a b. \<exists>i j. T' a = Some i \<and> T' b = Some j \<and> i < j) (names @ [m])"
    using o' last by (simp add: sorted_wrt_append)
  moreover have "\<forall>n i. T' n = Some i \<longrightarrow> i < Suc k"
  proof (intro allI impI)
    fix n i assume "T' n = Some i"
    then show "i < Suc k" using b T'm T'n[of n] by (cases "n = m") (auto simp add: less_Suc_eq)
  qed
  ultimately have "registry_inv (names @ [m]) T' (Suc k)" by (simp add: registry_inv_def)
  with False show ?thesis by (simp add: T'_def)
qed

lemma registry_inv_remove:
  assumes "registry_inv names T k"
  shows "registry_inv (remove1 m names) (\<lambda>n. if m = n then None else T n) (Suc k)"
proof -
  define T' where "T' = (\<lambda>n. if m = n then None else T n)"
  from assms have d: "distinct names" and s: "set names = {n. T n \<noteq> None}"
    and o: "sorted_wrt (\<lambda>a b. \<exists>i j. T a = Some i \<and> T b = Some j \<and> i < j) names"
    and b: "\<forall>n i. T n = Some i \<longrightarrow> i < k"
    by (simp_all add: registry_inv_def)
  have T'm: "T' m = None" by (simp add: T'_def)
  have T'n: "T' n = T n" if "n \<noteq> m" for n using that by (auto simp add: T'_def)
  have r: "remove1 m names = filter (\<lambda>n. m \<noteq> n) names"
    using d by (simp add: distinct_remove1_removeAll removeAll_filter_not_eq)
  have kept: "x \<noteq> m" if "x \<in> set (remove1 m names)" for x using that d by auto
  have "sorted_wrt (\<lambda>a b. \<exists>i j. T a = Some i \<and> T b = Some j \<and> i < j) (remove1 m names)"
    unfolding r using o by (rule sorted_wrt_filter)
  then have "sorted_wrt (\<lambda>a b. \<exists>i j. T' a = Some i \<and> T' b = Some j \<and> i < j) (remove1 m names)"
    by (rule sorted_wrt_mono_rel[rotated]) (simp add: T'n kept)
  moreover have "distinct (remove1 m names)" using d by simp
  moreover have "set (remove1 m names) = {n. T' n \<noteq> None}"
  proof (rule set_eqI)
    fix n show "(n \<in> set (remove1 m names)) = (n \<in> {n. T' n \<noteq> None})"
      using s d T'm T'n[of n] by (cases "n = m") auto
  qed
  moreover have "\<forall>n i. T' n = Some i \<longrightarrow> i < Suc k"
  proof (intro allI impI)
    fix n i assume "T' n = Some i"
    then show "i < Suc k" using b T'm T'n[of n] by (cases "n = m") (auto simp add: less_Suc_eq)
  qed
  ultimately have "registry_inv (remove1 m names) T' (Suc k)" by (simp add: registry_inv_def)
  then show ?thesis by (simp add: T'_def)
qed

lemma registry_inv_run_calls:
  "registry_inv (composite_order v) T k \<Longrightarrow>
   registry_inv (composite_order (run_calls cs v)) (\<lambda>n. insertion_time n cs k (T n)) (k + length cs)"
proof (induction cs arbitrary: v T k)
  case Nil
  then show ?case by simp
next
  case (Cons c cs)
  show ?case
  proof (cases c)
    case (Call_addLayer m w h a)
    from registry_inv_add[OF Cons.prems, of m]
    have "registry_inv (composite_order (run_call c v))
            (\<lambda>n. if m = n \<and> T n = None then Some k else T n) (Suc k)"
      by (simp add: Call_addLayer composite_order_addLayer)
    from Cons.IH[OF this] show ?thesis by (simp add: Call_addLayer)
  next
    case (Call_removeLayer m)
    from registry_inv_remove[OF Cons.prems, of m]
    have "registry_inv (composite_order (run_call c v))
            (\<lambda>n. if m = n then None else T n) (Suc k)"
      by (simp add: Call_removeLayer composite_order_removeLayer)
    from Cons.IH[OF this] show ?thesis by (simp add: Call_removeLayer)
  qed
qed

lemma distinct_names_run_calls:
  "distinct (composite_order v) \<Longrightarrow> distinct (composite_order (run_calls cs v))"
proof (induction cs arbitrary: v)
  case Nil then show ?case by simp
next
  case (Cons c cs)
  have "distinct (composite_order (run_call c v))"
    using Cons.prems by (cases c) (simp_all add: composite_order_addLayer composite_order_removeLayer)
  then show ?case using Cons.IH by simp
qed

text \<open>
  Claim C1. In every state of the registry that calls of \<^verbatim>\<open>addLayer\<close> and
  \<^verbatim>\<open>removeLayer\<close> reach, no two layers have the same \<^verbatim>\<open>layer_name\<close>: the calls keep
  the names distinct, and from the empty registry of a new viewer they are distinct. The
  order in which the layers are composited is the order in which \<^verbatim>\<open>addLayer\<close> inserted
  them: the layers present after the calls are the names with an insertion, and each was
  inserted by an earlier call than every layer composited after it.
\<close>

theorem layer_names_unique_in_insertion_order:
  "(distinct (composite_order v) \<longrightarrow> distinct (composite_order (run_calls cs v)))
   \<and> (layer_map v = [] \<longrightarrow>
        distinct (map layer_name (layer_map (run_calls cs v)))
      \<and> sorted_wrt (inserted_before cs) (composite_order (run_calls cs v))
      \<and> set (composite_order (run_calls cs v)) = {name. insertion_time name cs 0 None \<noteq> None})"
proof (intro conjI impI)
  assume "distinct (composite_order v)"
  then show "distinct (composite_order (run_calls cs v))" by (rule distinct_names_run_calls)
next
  assume empty: "layer_map v = []"
  then have "registry_inv (composite_order v) (\<lambda>n. None) 0"
    by (simp add: registry_inv_def composite_order_def)
  from registry_inv_run_calls[OF this, of cs]
  have inv: "registry_inv (composite_order (run_calls cs v)) (\<lambda>n. insertion_time n cs 0 None) (length cs)"
    by simp
  have rel: "(\<lambda>a b. \<exists>i j. insertion_time a cs 0 None = Some i \<and> insertion_time b cs 0 None = Some j \<and> i < j)
      = inserted_before cs"
    by (auto simp add: inserted_before_def fun_eq_iff split: option.splits)
  from inv show "distinct (map layer_name (layer_map (run_calls cs v)))"
    by (simp add: registry_inv_def composite_order_def)
  from inv rel show "sorted_wrt (inserted_before cs) (composite_order (run_calls cs v))"
    by (simp add: registry_inv_def)
  from inv show "set (composite_order (run_calls cs v)) = {name. insertion_time name cs 0 None \<noteq> None}"
    by (simp add: registry_inv_def)
qed

theorem layer_names_unique_in_insertion_order_witness:
  "composite_order
     (run_calls
        [Call_addLayer ''a'' 4 3 None, Call_addLayer ''b'' 4 3 (Some 1), Call_removeLayer ''a'',
         Call_addLayer ''b'' 4 3 None, Call_addLayer ''a'' 2 2 (Some 0)]
        \<lparr>interactor = None, image_viewer = None, stopped = False, layer_map = [],
           layers_to_remove = []\<rparr>)
     = [''b'', ''a'']
   \<and> inserted_before
        [Call_addLayer ''a'' 4 3 None, Call_addLayer ''b'' 4 3 (Some 1), Call_removeLayer ''a'',
         Call_addLayer ''b'' 4 3 None, Call_addLayer ''a'' 2 2 (Some 0)] ''b'' ''a''
   \<and> insertion_time ''b''
        [Call_addLayer ''a'' 4 3 None, Call_addLayer ''b'' 4 3 (Some 1), Call_removeLayer ''a'',
         Call_addLayer ''b'' 4 3 None, Call_addLayer ''a'' 2 2 (Some 0)] 0 None = Some 1
   \<and> insertion_time ''a''
        [Call_addLayer ''a'' 4 3 None, Call_addLayer ''b'' 4 3 (Some 1), Call_removeLayer ''a'',
         Call_addLayer ''b'' 4 3 None, Call_addLayer ''a'' 2 2 (Some 0)] 0 None = Some 4"
  using layer_names_unique_in_insertion_order
    [of "\<lparr>interactor = None, image_viewer = None, stopped = False, layer_map = [],
           layers_to_remove = []\<rparr>"
        "[Call_addLayer ''a'' 4 3 None, Call_addLayer ''b'' 4 3 (Some 1), Call_removeLayer ''a'',
         Call_addLayer ''b'' 4 3 None, Call_addLayer ''a'' 2 2 (Some 0)]"]
  by (simp add: composite_order_def addLayer_def removeLayer_def erase_def LayerComparator_def
      inserted_before_def or_default_def)

text \<open>
  Claim C2. For every viewer and every name, \<^verbatim>\<open>addLayer (name, width, height, opacity)\<close>
  creates a new layer when no layer has that name: it returns true and the registry gains,
  at its back, a layer of that name, extent and opacity. When a layer of that name exists
  it returns false and the viewer is unchanged. Either way a layer of the name exists
  afterwards, so a second \<^verbatim>\<open>addLayer\<close> of the name fails and changes nothing.
\<close>

theorem addLayer_creates_or_fails:
  "(layer_id \<in> set (map layer_name (layer_map v)) \<longrightarrow> addLayer layer_id w h a v = (False, v))
   \<and> (layer_id \<notin> set (map layer_name (layer_map v)) \<longrightarrow>
        addLayer layer_id w h a v
          = (True, v\<lparr>layer_map := layer_map v @
               [\<lparr>canvas = Some \<lparr>extent_width = w, extent_height = h\<rparr>, layer_name = layer_id,
                 opacity = or_default 0.5 a\<rparr>]\<rparr>))
   \<and> layer_id \<in> set (map layer_name (layer_map (snd (addLayer layer_id w h a v))))
   \<and> addLayer layer_id w' h' a' (snd (addLayer layer_id w h a v))
        = (False, snd (addLayer layer_id w h a v))"
proof -
  have present: "addLayer l x y z u = (False, u)" if "l \<in> set (map layer_name (layer_map u))"
    for l x y z u
    using that by (simp add: addLayer_def find_if_LayerComparator_end)
  have absent: "addLayer layer_id w h a v
          = (True, v\<lparr>layer_map := layer_map v @
               [\<lparr>canvas = Some \<lparr>extent_width = w, extent_height = h\<rparr>, layer_name = layer_id,
                 opacity = or_default 0.5 a\<rparr>]\<rparr>)"
    if "layer_id \<notin> set (map layer_name (layer_map v))"
    using that by (simp add: addLayer_def find_if_LayerComparator_end)
  have after: "layer_id \<in> set (map layer_name (layer_map (snd (addLayer layer_id w h a v))))"
    using composite_order_addLayer[of layer_id w h a v] by (simp add: composite_order_def)
  from present absent after present[OF after] show ?thesis by blast
qed

theorem addLayer_creates_or_fails_witness:
  "addLayer ''circles'' 640 480 (Some 1)
      \<lparr>interactor = None, image_viewer = None, stopped = False, layer_map = [],
         layers_to_remove = []\<rparr>
     = (True, \<lparr>interactor = None, image_viewer = None, stopped = False,
          layer_map = [\<lparr>canvas = Some \<lparr>extent_width = 640, extent_height = 480\<rparr>,
            layer_name = ''circles'', opacity = 1\<rparr>],
          layers_to_remove = []\<rparr>)
   \<and> addLayer ''circles'' 320 240 None
      \<lparr>interactor = None, image_viewer = None, stopped = False,
          layer_map = [\<lparr>canvas = Some \<lparr>extent_width = 640, extent_height = 480\<rparr>,
            layer_name = ''circles'', opacity = 1\<rparr>],
          layers_to_remove = []\<rparr>
     = (False, \<lparr>interactor = None, image_viewer = None, stopped = False,
          layer_map = [\<lparr>canvas = Some \<lparr>extent_width = 640, extent_height = 480\<rparr>,
            layer_name = ''circles'', opacity = 1\<rparr>],
          layers_to_remove = []\<rparr>)"
  using
    addLayer_creates_or_fails [of "''circles''"
      "\<lparr>interactor = None, image_viewer = None, stopped = False, layer_map = [],
         layers_to_remove = []\<rparr>" 640 480 "Some 1" 320 240 None]
    addLayer_creates_or_fails [of "''circles''"
      "\<lparr>interactor = None, image_viewer = None, stopped = False,
          layer_map = [\<lparr>canvas = Some \<lparr>extent_width = 640, extent_height = 480\<rparr>,
            layer_name = ''circles'', opacity = 1\<rparr>],
          layers_to_remove = []\<rparr>" 320 240 None 320 240 None]
  by (simp add: or_default_def)

subsection \<open>Drawing into the named layer\<close>







end
